theory Spec2Isabelle
  imports Main "HOL-Library.Word"
begin

unbundle bit_operations_syntax

section \<open>Data model\<close>

text \<open>
  The program \<^verbatim>\<open>EXPERIMENT/Ex1.cpp\<close> works on C++ \<^verbatim>\<open>int\<close> values and on
  \<^verbatim>\<open>std::string\<close>s. An \<^verbatim>\<open>int\<close> is a 32-bit two's complement value: a
  \<open>32 word\<close>, read with \<open>sint\<close>, compared with the signed order, shifted right
  arithmetically. Overflow of \<^verbatim>\<open>int\<close> arithmetic is written as wrap-around; no
  property below depends on it, since every value that is computed from a validated string
  stays far below \<open>2 ^ 31\<close>. A string is a list of 8-bit characters.
\<close>

type_synonym cint = "32 word"

text \<open>
  The value of a \<^verbatim>\<open>char\<close> once promoted to \<^verbatim>\<open>int\<close>. The source is built with g++,
  where \<^verbatim>\<open>char\<close> is signed on x86: the bytes from 128 on are negative. With an unsigned
  \<^verbatim>\<open>char\<close> the validator decides the same, since it accepts the codes 48 to 55 only,
  and the parser is applied to validated strings.
\<close>

definition char_val :: "char \<Rightarrow> int" where
  "char_val c = (if (of_char c :: int) < 128 then of_char c else of_char c - 256)"

text \<open>The process reads from standard input and writes to standard output.\<close>

record io =
  stdin :: string
  stdout :: string

definition cout :: "string \<Rightarrow> io \<Rightarrow> io" where
  "cout s st = st\<lparr>stdout := stdout st @ s\<rparr>"

text \<open>White space of the C locale: space, and the control characters 9 to 13.\<close>

definition isspace :: "char \<Rightarrow> bool" where
  "isspace c = ((of_char c :: nat) = 32 \<or> (9 \<le> (of_char c :: nat) \<and> (of_char c :: nat) \<le> 13))"

text \<open>
  \<^verbatim>\<open>cin >> str\<close>: leading white space is skipped, then the characters up to the next
  white space (or the end of input) are the token. When no character is left the
  extraction fails and the string is empty.
\<close>

definition cin_read :: "io \<Rightarrow> string \<times> io" where
  "cin_read st =
     (let s = dropWhile isspace (stdin st)
      in (takeWhile (\<lambda>c. \<not> isspace c) s, st\<lparr>stdin := dropWhile (\<lambda>c. \<not> isspace c) s\<rparr>))"

definition newline :: string where
  "newline = [CHR 0x0A]"

section \<open>The functions of the program\<close>

definition error_out :: "string \<Rightarrow> string \<Rightarrow> io \<Rightarrow> io" where
  "error_out code msg st = cout (''ERROR: '' @ code @ '': '' @ msg @ newline) st"

text \<open>The loop of \<^verbatim>\<open>is_valid_octal4\<close>: the first character outside '0'..'7' returns false.\<close>

fun is_valid_octal4_loop :: "string \<Rightarrow> bool" where
  "is_valid_octal4_loop [] = True"
| "is_valid_octal4_loop (c # cs) =
     (if char_val c < char_val CHR ''0'' \<or> char_val c > char_val CHR ''7'' then False
      else is_valid_octal4_loop cs)"

definition is_valid_octal4 :: "string \<Rightarrow> bool" where
  "is_valid_octal4 s = (if length s \<noteq> 4 then False else is_valid_octal4_loop s)"

text \<open>The loop of \<^verbatim>\<open>octal_to_int\<close>, with the running \<^verbatim>\<open>value\<close> as an accumulator.\<close>

fun octal_to_int_loop :: "cint \<Rightarrow> string \<Rightarrow> cint" where
  "octal_to_int_loop v [] = v"
| "octal_to_int_loop v (c # cs) =
     octal_to_int_loop (v * 8 + word_of_int (char_val c - char_val CHR ''0'')) cs"

definition octal_to_int :: "string \<Rightarrow> cint" where
  "octal_to_int s = octal_to_int_loop 0 s"

text \<open>
  \<^verbatim>\<open>ss << setfill('0') << setw(4) << oct << (value & 0777)\<close>: with \<^verbatim>\<open>oct\<close> the
  value is printed as an unsigned number in base 8, without a prefix and without leading
  zeros; \<^verbatim>\<open>setw(4)\<close> with \<^verbatim>\<open>setfill('0')\<close> then pads it on the left up to four
  characters. The octal constant \<^verbatim>\<open>0777\<close> is 511.
\<close>

definition oct_digit :: "nat \<Rightarrow> char" where
  "oct_digit d = ''01234567'' ! d"

fun oct_digits :: "nat \<Rightarrow> string" where
  "oct_digits n = (if n < 8 then [oct_digit n] else oct_digits (n div 8) @ [oct_digit (n mod 8)])"

declare oct_digits.simps [simp del]

definition setw_setfill :: "nat \<Rightarrow> char \<Rightarrow> string \<Rightarrow> string" where
  "setw_setfill w f s = replicate (w - length s) f @ s"

definition int_to_octal4 :: "cint \<Rightarrow> string" where
  "int_to_octal4 v = setw_setfill 4 CHR ''0'' (oct_digits (unat (v AND 511)))"

definition triad_to_rwx :: "cint \<Rightarrow> string" where
  "triad_to_rwx bits =
     [if bits AND 4 \<noteq> 0 then CHR ''r'' else CHR ''-'',
      if bits AND 2 \<noteq> 0 then CHR ''w'' else CHR ''-'',
      if bits AND 1 \<noteq> 0 then CHR ''x'' else CHR ''-'']"

definition mode_to_symbolic :: "cint \<Rightarrow> string" where
  "mode_to_symbolic mode =
     (let user = signed_drop_bit 6 mode AND 7;
          group = signed_drop_bit 3 mode AND 7;
          other = signed_drop_bit 0 mode AND 7
      in triad_to_rwx user @ triad_to_rwx group @ triad_to_rwx other)"

text \<open>Line 132 of the source, \<^verbatim>\<open>int effective = (mode & (~umask)) & 0777\<close>.\<close>

definition effective :: "cint \<Rightarrow> cint \<Rightarrow> cint" where
  "effective mode umask = (mode AND NOT umask) AND 511"

text \<open>\<^verbatim>\<open>main\<close> returns the exit status and the final state of the two streams.\<close>

definition main :: "io \<Rightarrow> int \<times> io" where
  "main st0 =
     (let st1 = cout ''Enter file mode (4-digit octal, e.g., 0644): '' st0;
          (modeStr, st2) = cin_read st1
      in if \<not> is_valid_octal4 modeStr
         then (1, error_out ''E_OCTAL'' ''mode must be 4-digit octal (0000-0777)'' st2)
         else
           let st3 = cout ''Enter umask (4-digit octal, e.g., 0022): '' st2;
               (umaskStr, st4) = cin_read st3
           in if \<not> is_valid_octal4 umaskStr
              then (1, error_out ''E_OCTAL'' ''umask must be 4-digit octal (0000-0777)'' st4)
              else
                let mode = octal_to_int modeStr;
                    umask = octal_to_int umaskStr
                in if 511 <s mode
                   then (1, error_out ''E_RANGE'' ''mode out of range (0000-0777)'' st4)
                   else if 511 <s umask
                   then (1, error_out ''E_RANGE'' ''umask out of range (0000-0777)'' st4)
                   else
                     let eff = effective mode umask;
                         st5 = cout (newline @ ''OK: EFFECTIVE '' @ int_to_octal4 eff @ newline) st4;
                         st6 = cout (''OK: SYMBOLIC '' @ mode_to_symbolic eff @ newline) st5
                     in (0, st6))"

section \<open>Auxiliary facts\<close>

lemma mask_9_eq_511: "(511 :: cint) = mask 9"
  by (simp add: mask_eq_exp_minus_1)

lemma unat_and_511: "unat ((v::cint) AND 511) = unat v mod 512"
proof -
  have "v AND 511 = take_bit 9 v"
    by (simp only: mask_9_eq_511 take_bit_eq_mask)
  then have "unat (v AND 511) = take_bit 9 (unat v)"
    by (simp only: unsigned_take_bit_eq)
  then show ?thesis
    by (simp add: take_bit_eq_mod)
qed

lemma sint_word_of_int_small:
  assumes "0 \<le> x" and "x \<le> 4095"
  shows "sint (word_of_int x :: cint) = x"
proof -
  have "signed_take_bit 31 x = x"
    using assms by (intro signed_take_bit_int_eq_self) simp_all
  then show ?thesis
    by (simp add: signed_of_int)
qed

lemma uint_of_sint:
  assumes "0 \<le> sint (v::cint)"
  shows "uint v = sint v"
proof -
  have "sint v < 2 ^ 31"
    using sint_less [of v] by simp
  have "uint v = uint (word_of_int (sint v) :: cint)"
    by simp
  also have "\<dots> = sint v mod 2 ^ 32"
    by (simp only: uint_word_of_int) simp
  also have "\<dots> = sint v"
    using assms \<open>sint v < 2 ^ 31\<close> by simp
  finally show ?thesis .
qed

lemma and_511_id:
  assumes "0 \<le> sint (v::cint)" and "sint v \<le> 511"
  shows "v AND 511 = v"
proof -
  have "uint v < 2 ^ 9"
    using assms uint_of_sint [of v] by simp
  then show ?thesis
    by (simp only: mask_9_eq_511 mask_eq_iff)
qed

lemma less_8_cases: "d < 8 \<Longrightarrow> d = 0 \<or> d = 1 \<or> d = 2 \<or> d = 3 \<or> d = 4 \<or> d = 5 \<or> d = 6 \<or> d = (7::nat)"
  by arith

lemma oct_digit_val: "d < 8 \<Longrightarrow> char_val (oct_digit d) - char_val CHR ''0'' = int d"
  using less_8_cases [of d] by (auto simp: oct_digit_def char_val_def)

lemma char_val_digit:
  "(\<not> (char_val c < char_val CHR ''0'' \<or> char_val c > char_val CHR ''7'')) = (c \<in> set ''01234567'')"
  by (cases c) (simp add: char_val_def)

lemma is_valid_octal4_loop_Cons:
  "is_valid_octal4_loop (c # cs) = (c \<in> set ''01234567'' \<and> is_valid_octal4_loop cs)"
proof -
  have "is_valid_octal4_loop (c # cs) =
      (\<not> (char_val c < char_val CHR ''0'' \<or> char_val c > char_val CHR ''7'') \<and> is_valid_octal4_loop cs)"
    by simp
  then show ?thesis
    by (simp only: char_val_digit)
qed

lemma is_valid_octal4_loop_set: "is_valid_octal4_loop s = (set s \<subseteq> set ''01234567'')"
proof (induction s)
  case Nil
  show ?case by simp
next
  case (Cons c cs)
  show ?case
    unfolding is_valid_octal4_loop_Cons Cons.IH by simp
qed

lemma length_4_conv: "length s = 4 \<Longrightarrow> \<exists>a b c d. s = [a, b, c, d]"
  by (auto simp: length_Suc_conv numeral_eq_Suc)

lemma digit_range:
  assumes "c \<in> set ''01234567''"
  shows "0 \<le> char_val c - char_val CHR ''0'' \<and> char_val c - char_val CHR ''0'' \<le> 7"
proof -
  have "\<not> (char_val c < char_val CHR ''0'' \<or> char_val c > char_val CHR ''7'')"
    using assms by (simp only: char_val_digit)
  moreover have "char_val CHR ''0'' = 48" "char_val CHR ''7'' = 55"
    by (simp_all add: char_val_def)
  ultimately show ?thesis by simp
qed

lemma octal_to_int_4:
  "octal_to_int [a, b, c, d] =
     word_of_int ((char_val a - char_val CHR ''0'') * 8 ^ 3 + (char_val b - char_val CHR ''0'') * 8 ^ 2
       + (char_val c - char_val CHR ''0'') * 8 + (char_val d - char_val CHR ''0''))"
  by (simp add: octal_to_int_def algebra_simps)

lemma replicate_small:
  "replicate 3 c = [c, c, c]" "replicate 2 c = [c, c]" "replicate 1 c = [c]"
  by (simp_all add: numeral_eq_Suc)

lemma oct_digits_small:
  assumes "n < 512"
  shows "setw_setfill 4 CHR ''0'' (oct_digits n) =
           [CHR ''0'', oct_digit (n div 64), oct_digit (n div 8 mod 8), oct_digit (n mod 8)]"
proof -
  consider "n < 8" | "8 \<le> n" "n < 64" | "64 \<le> n"
    by linarith
  then show ?thesis
  proof cases
    case 1
    then show ?thesis
      by (simp add: oct_digits.simps [of n] setw_setfill_def oct_digit_def replicate_small)
  next
    case 2
    then have "n div 8 < 8" by simp
    with 2 show ?thesis
      by (simp add: oct_digits.simps [of n] oct_digits.simps [of "n div 8"] setw_setfill_def oct_digit_def replicate_small)
  next
    case 3
    have q: "n div 8 div 8 = n div 64"
      by (simp add: div_mult2_eq [symmetric])
    from assms have "n div 64 < 8" by simp
    then have d1: "oct_digits (n div 64) = [oct_digit (n div 64)]"
      by (simp add: oct_digits.simps [of "n div 64"])
    from 3 have "\<not> n div 8 < 8" by simp
    then have d2: "oct_digits (n div 8) = [oct_digit (n div 64), oct_digit (n div 8 mod 8)]"
      by (simp add: oct_digits.simps [of "n div 8"] q d1)
    from 3 have "\<not> n < 8" by simp
    then have "oct_digits n = [oct_digit (n div 64), oct_digit (n div 8 mod 8), oct_digit (n mod 8)]"
      by (simp add: oct_digits.simps [of n] d2)
    then show ?thesis
      by (simp add: setw_setfill_def replicate_small)
  qed
qed


lemma mode_to_symbolic_bits:
  "mode_to_symbolic v =
     [if bit v 8 then CHR ''r'' else CHR ''-'', if bit v 7 then CHR ''w'' else CHR ''-'',
      if bit v 6 then CHR ''x'' else CHR ''-'',
      if bit v 5 then CHR ''r'' else CHR ''-'', if bit v 4 then CHR ''w'' else CHR ''-'',
      if bit v 3 then CHR ''x'' else CHR ''-'',
      if bit v 2 then CHR ''r'' else CHR ''-'', if bit v 1 then CHR ''w'' else CHR ''-'',
      if bit v 0 then CHR ''x'' else CHR ''-'']"
proof -
  have b4: "(b AND 4 \<noteq> 0) = bit b 2" for b :: cint
    using and_exp_eq_0_iff_not_bit [of b 2] by simp
  have b2: "(b AND 2 \<noteq> 0) = bit b 1" for b :: cint
    using and_exp_eq_0_iff_not_bit [of b 1] by simp
  have b1: "(b AND 1 \<noteq> 0) = bit b 0" for b :: cint
    using and_exp_eq_0_iff_not_bit [of b 0] by simp
  have t: "triad_to_rwx b =
      [if bit b 2 then CHR ''r'' else CHR ''-'', if bit b 1 then CHR ''w'' else CHR ''-'',
       if bit b 0 then CHR ''x'' else CHR ''-'']" for b :: cint
    unfolding triad_to_rwx_def by (simp only: b4 b2 b1)
  have seven: "(7::cint) = mask 3"
    by (simp add: mask_eq_exp_minus_1)
  show ?thesis
    unfolding mode_to_symbolic_def Let_def t
    by (simp add: seven bit_simps)
qed

subsection \<open>The validator, the parser and the outcomes of \<^verbatim>\<open>main\<close>\<close>

lemma is_valid_octal4_iff:
  "is_valid_octal4 s = (length s = 4 \<and> set s \<subseteq> set ''01234567'')"
  by (simp only: is_valid_octal4_def is_valid_octal4_loop_set) simp

lemma base8_bound:
  fixes a b c d :: int
  assumes "0 \<le> a \<and> a \<le> 7" "0 \<le> b \<and> b \<le> 7" "0 \<le> c \<and> c \<le> 7" "0 \<le> d \<and> d \<le> 7"
  shows "0 \<le> a * 8 ^ 3 + b * 8 ^ 2 + c * 8 + d \<and> a * 8 ^ 3 + b * 8 ^ 2 + c * 8 + d \<le> 4095"
  using assms by simp

lemma base8_leading:
  fixes a b c d :: int
  assumes "0 \<le> a \<and> a \<le> 7" "0 \<le> b \<and> b \<le> 7" "0 \<le> c \<and> c \<le> 7" "0 \<le> d \<and> d \<le> 7"
  shows "(a * 8 ^ 3 + b * 8 ^ 2 + c * 8 + d \<le> 511) = (a = 0)"
  using assms by auto

lemma sint_octal_to_int_4:
  assumes "a \<in> set ''01234567''" "b \<in> set ''01234567''" "c \<in> set ''01234567''"
    "d \<in> set ''01234567''"
  shows "sint (octal_to_int [a, b, c, d]) =
      (char_val a - char_val CHR ''0'') * 8 ^ 3 + (char_val b - char_val CHR ''0'') * 8 ^ 2
       + (char_val c - char_val CHR ''0'') * 8 + (char_val d - char_val CHR ''0'')"
    (is "_ = ?n")
proof -
  have "0 \<le> ?n \<and> ?n \<le> 4095"
    by (rule base8_bound [OF digit_range digit_range digit_range digit_range]) (fact assms)+
  then have "sint (word_of_int ?n :: cint) = ?n"
    by (simp only: sint_word_of_int_small)
  then show ?thesis
    by (simp only: octal_to_int_4)
qed

lemma octal_to_int_range:
  assumes "is_valid_octal4 s"
  shows "0 \<le> sint (octal_to_int s) \<and> sint (octal_to_int s) \<le> 4095"
proof -
  from assms have len: "length s = 4" and dig: "set s \<subseteq> set ''01234567''"
    by (simp_all only: is_valid_octal4_iff)
  from len obtain a b c d where s: "s = [a, b, c, d]"
    using length_4_conv by blast
  with dig have m: "a \<in> set ''01234567''" "b \<in> set ''01234567''" "c \<in> set ''01234567''"
    "d \<in> set ''01234567''"
    by simp_all
  show ?thesis
    unfolding s sint_octal_to_int_4 [OF m]
    by (rule base8_bound [OF digit_range digit_range digit_range digit_range]) (fact m)+
qed

lemma leading_digit_range:
  assumes "is_valid_octal4 s"
  shows "(sint (octal_to_int s) \<le> 511) = (hd s = CHR ''0'')"
proof -
  from assms have len: "length s = 4" and dig: "set s \<subseteq> set ''01234567''"
    by (simp_all only: is_valid_octal4_iff)
  from len obtain a b c d where s: "s = [a, b, c, d]"
    using length_4_conv by blast
  with dig have m: "a \<in> set ''01234567''" "b \<in> set ''01234567''" "c \<in> set ''01234567''"
    "d \<in> set ''01234567''"
    by simp_all
  have z: "(char_val a = char_val CHR ''0'') = (a = CHR ''0'')"
    using m(1) by (auto simp: char_val_def)
  have "(sint (octal_to_int s) \<le> 511) = (char_val a - char_val CHR ''0'' = 0)"
    unfolding s sint_octal_to_int_4 [OF m]
    using digit_range [OF m(1)] digit_range [OF m(2)] digit_range [OF m(3)] digit_range [OF m(4)]
    by (simp only: base8_leading)
  then show ?thesis
    using z by (simp add: s)
qed

lemma cin_read_cout:
  "cin_read (cout s st) = (fst (cin_read st), cout s (snd (cin_read st)))"
  by (simp add: cin_read_def cout_def Let_def)

lemma stdout_cin_read: "stdout (snd (cin_read st)) = stdout st"
  by (simp add: cin_read_def Let_def)

lemma stdout_cout: "stdout (cout s st) = stdout st @ s"
  by (simp add: cout_def)

lemma stdin_cout: "stdin (cout s st) = stdin st"
  by (simp add: cout_def)

lemma stdout_error_out:
  "stdout (error_out code msg st) = stdout st @ ''ERROR: '' @ code @ '': '' @ msg @ newline"
  by (simp add: error_out_def cout_def)

lemma stdin_error_out: "stdin (error_out code msg st) = stdin st"
  by (simp add: error_out_def cout_def)

lemma main_invalid_mode:
  assumes "\<not> is_valid_octal4 (fst (cin_read st0))"
  shows "main st0 =
    (1, error_out ''E_OCTAL'' ''mode must be 4-digit octal (0000-0777)''
          (cout ''Enter file mode (4-digit octal, e.g., 0644): '' (snd (cin_read st0))))"
  using assms by (simp add: main_def cin_read_cout Let_def)

lemma main_invalid_umask:
  assumes "is_valid_octal4 (fst (cin_read st0))"
    and "\<not> is_valid_octal4 (fst (cin_read (snd (cin_read st0))))"
  shows "main st0 =
    (1, error_out ''E_OCTAL'' ''umask must be 4-digit octal (0000-0777)''
          (cout ''Enter umask (4-digit octal, e.g., 0022): ''
            (cout ''Enter file mode (4-digit octal, e.g., 0644): ''
              (snd (cin_read (snd (cin_read st0)))))))"
  using assms by (simp add: main_def cin_read_cout Let_def)

lemma main_range_mode:
  assumes "is_valid_octal4 (fst (cin_read st0))"
    and "is_valid_octal4 (fst (cin_read (snd (cin_read st0))))"
    and "511 <s octal_to_int (fst (cin_read st0))"
  shows "main st0 =
    (1, error_out ''E_RANGE'' ''mode out of range (0000-0777)''
          (cout ''Enter umask (4-digit octal, e.g., 0022): ''
            (cout ''Enter file mode (4-digit octal, e.g., 0644): ''
              (snd (cin_read (snd (cin_read st0)))))))"
  using assms by (simp add: main_def cin_read_cout Let_def)

lemma main_range_umask:
  assumes "is_valid_octal4 (fst (cin_read st0))"
    and "is_valid_octal4 (fst (cin_read (snd (cin_read st0))))"
    and "\<not> 511 <s octal_to_int (fst (cin_read st0))"
    and "511 <s octal_to_int (fst (cin_read (snd (cin_read st0))))"
  shows "main st0 =
    (1, error_out ''E_RANGE'' ''umask out of range (0000-0777)''
          (cout ''Enter umask (4-digit octal, e.g., 0022): ''
            (cout ''Enter file mode (4-digit octal, e.g., 0644): ''
              (snd (cin_read (snd (cin_read st0)))))))"
  using assms by (simp add: main_def cin_read_cout Let_def)

lemma main_success:
  assumes "is_valid_octal4 (fst (cin_read st0))"
    and "is_valid_octal4 (fst (cin_read (snd (cin_read st0))))"
    and "\<not> 511 <s octal_to_int (fst (cin_read st0))"
    and "\<not> 511 <s octal_to_int (fst (cin_read (snd (cin_read st0))))"
  shows "main st0 =
    (0, cout (''OK: SYMBOLIC '' @ mode_to_symbolic (effective (octal_to_int (fst (cin_read st0)))
                  (octal_to_int (fst (cin_read (snd (cin_read st0)))))) @ newline)
         (cout (newline @ ''OK: EFFECTIVE '' @ int_to_octal4 (effective (octal_to_int (fst (cin_read st0)))
                  (octal_to_int (fst (cin_read (snd (cin_read st0)))))) @ newline)
          (cout ''Enter umask (4-digit octal, e.g., 0022): ''
            (cout ''Enter file mode (4-digit octal, e.g., 0644): ''
              (snd (cin_read (snd (cin_read st0))))))))"
  using assms by (simp add: main_def cin_read_cout Let_def)

subsection \<open>Masking and the octal renderer\<close>

lemma sint_and_511: "0 \<le> sint ((x::cint) AND 511) \<and> sint (x AND 511) \<le> 511"
proof -
  have "unat (x AND 511) < 512"
    by (simp only: unat_and_511 mod_less_divisor zero_less_numeral)
  then have u: "uint (x AND 511) < 512"
    by (simp only: uint_nat)
  have "sint (x AND 511) = signed_take_bit 31 (uint (x AND 511))"
    using sint_uint [of "x AND 511"] by simp
  also have "\<dots> = uint (x AND 511)"
  proof (rule signed_take_bit_int_eq_self)
    show "- (2 ^ 31) \<le> uint (x AND 511)"
      by (rule order_trans [of _ 0]) simp_all
    show "uint (x AND 511) < 2 ^ 31"
      using u by simp
  qed
  finally show ?thesis
    using u by simp
qed

lemma base8_split: "int (n div 64) * 8 ^ 2 + int (n div 8 mod 8) * 8 + int (n mod 8) = int n"
proof -
  have "n div 8 div 8 * 64 + n div 8 mod 8 * 8 + n mod 8 = n"
    using div_mult_mod_eq [of n 8] div_mult_mod_eq [of "n div 8" 8] by linarith
  then have "n div 64 * 64 + n div 8 mod 8 * 8 + n mod 8 = n"
    by (simp add: div_mult2_eq [symmetric])
  then have "int (n div 64 * 64 + n div 8 mod 8 * 8 + n mod 8) = int n"
    by (rule arg_cong)
  then show ?thesis
    by simp
qed


lemma int_to_octal4_small:
  assumes "0 \<le> sint v" and "sint v \<le> 511"
  shows "int_to_octal4 v =
    [CHR ''0'', oct_digit (unat v div 64), oct_digit (unat v div 8 mod 8), oct_digit (unat v mod 8)]"
proof -
  have v: "v AND 511 = v"
    using assms by (rule and_511_id)
  have "unat (v AND 511) < 512"
    by (simp only: unat_and_511 mod_less_divisor zero_less_numeral)
  then have n: "unat v < 512"
    by (simp only: v)
  show ?thesis
    unfolding int_to_octal4_def v using n by (rule oct_digits_small)
qed

subsection \<open>What a run of \<^verbatim>\<open>main\<close> shows\<close>

lemma main_success_observed:
  assumes "is_valid_octal4 (fst (cin_read st0))"
    and "is_valid_octal4 (fst (cin_read (snd (cin_read st0))))"
    and "\<not> 511 <s octal_to_int (fst (cin_read st0))"
    and "\<not> 511 <s octal_to_int (fst (cin_read (snd (cin_read st0))))"
  shows "fst (main st0) = 0"
    and "stdout (snd (main st0)) =
      stdout st0 @ ''Enter file mode (4-digit octal, e.g., 0644): ''
        @ ''Enter umask (4-digit octal, e.g., 0022): ''
        @ newline @ ''OK: EFFECTIVE ''
        @ int_to_octal4 (effective (octal_to_int (fst (cin_read st0)))
            (octal_to_int (fst (cin_read (snd (cin_read st0))))))
        @ newline @ ''OK: SYMBOLIC ''
        @ mode_to_symbolic (effective (octal_to_int (fst (cin_read st0)))
            (octal_to_int (fst (cin_read (snd (cin_read st0))))))
        @ newline"
    and "stdin (snd (main st0)) = stdin (snd (cin_read (snd (cin_read st0))))"
  by (simp_all only: main_success [OF assms] fst_conv snd_conv stdout_cout stdin_cout
      stdout_cin_read append_assoc)

lemma main_range_mode_observed:
  assumes "is_valid_octal4 (fst (cin_read st0))"
    and "is_valid_octal4 (fst (cin_read (snd (cin_read st0))))"
    and "511 <s octal_to_int (fst (cin_read st0))"
  shows "fst (main st0) = 1"
    and "stdout (snd (main st0)) =
      stdout st0 @ ''Enter file mode (4-digit octal, e.g., 0644): ''
        @ ''Enter umask (4-digit octal, e.g., 0022): ''
        @ ''ERROR: E_RANGE: mode out of range (0000-0777)'' @ newline"
  by (simp_all add: main_range_mode [OF assms] stdout_error_out stdout_cout stdout_cin_read)

lemma main_range_umask_observed:
  assumes "is_valid_octal4 (fst (cin_read st0))"
    and "is_valid_octal4 (fst (cin_read (snd (cin_read st0))))"
    and "\<not> 511 <s octal_to_int (fst (cin_read st0))"
    and "511 <s octal_to_int (fst (cin_read (snd (cin_read st0))))"
  shows "fst (main st0) = 1"
    and "stdout (snd (main st0)) =
      stdout st0 @ ''Enter file mode (4-digit octal, e.g., 0644): ''
        @ ''Enter umask (4-digit octal, e.g., 0022): ''
        @ ''ERROR: E_RANGE: umask out of range (0000-0777)'' @ newline"
  by (simp_all add: main_range_umask [OF assms] stdout_error_out stdout_cout stdout_cin_read)

lemma main_invalid_mode_observed:
  assumes "\<not> is_valid_octal4 (fst (cin_read st0))"
  shows "fst (main st0) = 1"
    and "stdout (snd (main st0)) =
      stdout st0 @ ''Enter file mode (4-digit octal, e.g., 0644): ''
        @ ''ERROR: E_OCTAL: mode must be 4-digit octal (0000-0777)'' @ newline"
    and "stdin (snd (main st0)) = stdin (snd (cin_read st0))"
  by (simp_all add: main_invalid_mode [OF assms] stdout_error_out stdin_error_out stdout_cout
      stdin_cout stdout_cin_read)

lemma and_511_idem: "((x::cint) AND 511) AND 511 = x AND 511"
  by (simp add: and.assoc)

section \<open>The claims\<close>

text \<open>
  C1, as the specification states it. For the mode \<^verbatim>\<open>0644\<close> and the umask \<^verbatim>\<open>0022\<close> the
  specification gives the effective value 388 and the lines \<^verbatim>\<open>OK: EFFECTIVE 0604\<close>
  and \<^verbatim>\<open>OK: SYMBOLIC rw----r--\<close>. The program computes neither: the umask 0022 clears
  the write bits of group and other, which 0644 does not have, so the mode is unchanged
  and the program prints 0644 and \<^verbatim>\<open>rw-r--r--\<close>.
\<close>

theorem claimed_output_0604_refuted:
  "effective (octal_to_int ''0644'') (octal_to_int ''0022'') \<noteq> 388
   \<and> int_to_octal4 (effective (octal_to_int ''0644'') (octal_to_int ''0022'')) \<noteq> ''0604''
   \<and> mode_to_symbolic (effective (octal_to_int ''0644'') (octal_to_int ''0022'')) \<noteq> ''rw----r--''
   \<and> stdout (snd (main \<lparr>stdin = ''0644'' @ newline @ ''0022'' @ newline, stdout = []\<rparr>)) =
       ''Enter file mode (4-digit octal, e.g., 0644): Enter umask (4-digit octal, e.g., 0022): ''
        @ newline @ ''OK: EFFECTIVE 0644'' @ newline @ ''OK: SYMBOLIC rw-r--r--'' @ newline"
  by (simp add: main_def cin_read_def cout_def error_out_def isspace_def newline_def
      is_valid_octal4_def char_val_def octal_to_int_def effective_def word_sless_alt
      int_to_octal4_def setw_setfill_def oct_digits.simps oct_digit_def
      mode_to_symbolic_def triad_to_rwx_def)

text \<open>
  C1, amended. When the two tokens read from standard input are \<^verbatim>\<open>0644\<close> and
  \<^verbatim>\<open>0022\<close>, the program parses 420 and 18, computes the effective value
  \<open>420 AND NOT 18 AND 511 = 420\<close>, exits with status 0 and writes, after the two prompts
  and an empty line, \<^verbatim>\<open>OK: EFFECTIVE 0644\<close> followed by \<^verbatim>\<open>OK: SYMBOLIC rw-r--r--\<close>.
\<close>

theorem scenario_0644_0022:
  assumes "fst (cin_read st0) = ''0644''"
    and "fst (cin_read (snd (cin_read st0))) = ''0022''"
  shows "octal_to_int ''0644'' = 420 \<and> octal_to_int ''0022'' = 18 \<and> effective 420 18 = 420
    \<and> fst (main st0) = 0
    \<and> stdout (snd (main st0)) =
       stdout st0 @ ''Enter file mode (4-digit octal, e.g., 0644): ''
        @ ''Enter umask (4-digit octal, e.g., 0022): ''
        @ newline @ ''OK: EFFECTIVE 0644'' @ newline @ ''OK: SYMBOLIC rw-r--r--'' @ newline"
proof -
  have m: "octal_to_int ''0644'' = 420" and u: "octal_to_int ''0022'' = 18"
    by (simp_all add: octal_to_int_def char_val_def)
  have e: "effective 420 18 = 420"
    by (simp add: effective_def)
  have o: "int_to_octal4 420 = ''0644''"
    by (simp add: int_to_octal4_def setw_setfill_def oct_digits.simps oct_digit_def)
  have y: "mode_to_symbolic 420 = ''rw-r--r--''"
    by (simp add: mode_to_symbolic_def triad_to_rwx_def)
  have v: "is_valid_octal4 (fst (cin_read st0))"
    "is_valid_octal4 (fst (cin_read (snd (cin_read st0))))"
    unfolding assms by (simp_all add: is_valid_octal4_def char_val_def)
  have g: "\<not> 511 <s octal_to_int (fst (cin_read st0))"
    "\<not> 511 <s octal_to_int (fst (cin_read (snd (cin_read st0))))"
    unfolding assms m u by (simp_all add: word_sless_alt)
  show ?thesis
    using main_success_observed(1,2) [OF v g]
    by (simp only: assms m u e o y) simp
qed

theorem scenario_0644_0022_witness:
  "fst (cin_read \<lparr>stdin = ''0644'' @ newline @ ''0022'' @ newline, stdout = []\<rparr>) = ''0644''
   \<and> fst (cin_read (snd (cin_read \<lparr>stdin = ''0644'' @ newline @ ''0022'' @ newline, stdout = []\<rparr>))) = ''0022''
   \<and> fst (main \<lparr>stdin = ''0644'' @ newline @ ''0022'' @ newline, stdout = []\<rparr>) = 0
   \<and> stdout (snd (main \<lparr>stdin = ''0644'' @ newline @ ''0022'' @ newline, stdout = []\<rparr>)) =
       ''Enter file mode (4-digit octal, e.g., 0644): Enter umask (4-digit octal, e.g., 0022): ''
        @ newline @ ''OK: EFFECTIVE 0644'' @ newline @ ''OK: SYMBOLIC rw-r--r--'' @ newline"
proof -
  let ?st = "\<lparr>stdin = ''0644'' @ newline @ ''0022'' @ newline, stdout = []\<rparr>"
  have a: "fst (cin_read ?st) = ''0644''"
    by (simp add: cin_read_def isspace_def newline_def)
  have b: "fst (cin_read (snd (cin_read ?st))) = ''0022''"
    by (simp add: cin_read_def isspace_def newline_def)
  from scenario_0644_0022 [OF a b] a b show ?thesis
    by simp
qed

text \<open>
  C2, as the specification states it: every string that the validator accepts parses to at
  most 511, so that the \<^verbatim>\<open>E_RANGE\<close> branch of \<^verbatim>\<open>main\<close> cannot be taken. The validator
  accepts any four octal digits, also with a leading digit other than 0: \<^verbatim>\<open>1000\<close> is
  accepted, parses to 512, and \<^verbatim>\<open>main\<close> reports \<^verbatim>\<open>E_RANGE\<close> for it.
\<close>

theorem E_RANGE_reached_by_valid_mode:
  "is_valid_octal4 ''1000'' \<and> sint (octal_to_int ''1000'') = 512
   \<and> \<not> sint (octal_to_int ''1000'') \<le> 511
   \<and> fst (main \<lparr>stdin = ''1000'' @ newline @ ''0000'' @ newline, stdout = []\<rparr>) = 1
   \<and> stdout (snd (main \<lparr>stdin = ''1000'' @ newline @ ''0000'' @ newline, stdout = []\<rparr>)) =
       ''Enter file mode (4-digit octal, e.g., 0644): Enter umask (4-digit octal, e.g., 0022): ''
        @ ''ERROR: E_RANGE: mode out of range (0000-0777)'' @ newline"
  by (simp add: main_def cin_read_def cout_def error_out_def isspace_def newline_def
      is_valid_octal4_def char_val_def octal_to_int_def word_sless_alt)

text \<open>
  C2, amended. For every string \<open>s\<close> that the validator accepts, the parsed integer lies
  between 0 and 4095; it is at most 511 exactly when the leading character of \<open>s\<close> is
  \<^verbatim>\<open>0\<close>, and the guard \<^verbatim>\<open>mode > 0777\<close> holds exactly when it is not. The
  \<^verbatim>\<open>E_RANGE\<close> branch of \<^verbatim>\<open>main\<close> is reached by such input: when the mode token is a
  validated string with a leading digit other than 0 and the umask token is validated too,
  the program exits with status 1 after the line
  \<^verbatim>\<open>ERROR: E_RANGE: mode out of range (0000-0777)\<close>.
\<close>

theorem validated_value_range:
  assumes "is_valid_octal4 s"
  shows "0 \<le> sint (octal_to_int s) \<and> sint (octal_to_int s) \<le> 4095
    \<and> (sint (octal_to_int s) \<le> 511) = (hd s = CHR ''0'')
    \<and> (511 <s octal_to_int s) = (hd s \<noteq> CHR ''0'')
    \<and> (fst (cin_read st0) = s \<and> is_valid_octal4 (fst (cin_read (snd (cin_read st0))))
          \<and> hd s \<noteq> CHR ''0'' \<longrightarrow>
        fst (main st0) = 1
        \<and> stdout (snd (main st0)) =
          stdout st0 @ ''Enter file mode (4-digit octal, e.g., 0644): ''
            @ ''Enter umask (4-digit octal, e.g., 0022): ''
            @ ''ERROR: E_RANGE: mode out of range (0000-0777)'' @ newline)"
proof -
  have r: "0 \<le> sint (octal_to_int s) \<and> sint (octal_to_int s) \<le> 4095"
    using assms by (rule octal_to_int_range)
  have l: "(sint (octal_to_int s) \<le> 511) = (hd s = CHR ''0'')"
    using assms by (rule leading_digit_range)
  have g: "(511 <s octal_to_int s) = (hd s \<noteq> CHR ''0'')"
    using l by (simp add: word_sless_alt not_le [symmetric])
  have p: "fst (main st0) = 1 \<and> stdout (snd (main st0)) =
          stdout st0 @ ''Enter file mode (4-digit octal, e.g., 0644): ''
            @ ''Enter umask (4-digit octal, e.g., 0022): ''
            @ ''ERROR: E_RANGE: mode out of range (0000-0777)'' @ newline"
    if "fst (cin_read st0) = s" "is_valid_octal4 (fst (cin_read (snd (cin_read st0))))"
      "hd s \<noteq> CHR ''0''"
  proof -
    have "is_valid_octal4 (fst (cin_read st0))"
      using assms that(1) by simp
    moreover have "511 <s octal_to_int (fst (cin_read st0))"
      using g that(1,3) by simp
    ultimately show ?thesis
      using that(2) main_range_mode_observed [of st0] by blast
  qed
  from r l g p show ?thesis
    by blast
qed

theorem validated_value_range_witness:
  "is_valid_octal4 ''1000''
   \<and> fst (cin_read \<lparr>stdin = ''1000'' @ newline @ ''0022'' @ newline, stdout = []\<rparr>) = ''1000''
   \<and> is_valid_octal4 (fst (cin_read (snd (cin_read
         \<lparr>stdin = ''1000'' @ newline @ ''0022'' @ newline, stdout = []\<rparr>))))
   \<and> hd ''1000'' \<noteq> CHR ''0''
   \<and> 511 <s octal_to_int ''1000''
   \<and> fst (main \<lparr>stdin = ''1000'' @ newline @ ''0022'' @ newline, stdout = []\<rparr>) = 1
   \<and> stdout (snd (main \<lparr>stdin = ''1000'' @ newline @ ''0022'' @ newline, stdout = []\<rparr>)) =
       ''Enter file mode (4-digit octal, e.g., 0644): Enter umask (4-digit octal, e.g., 0022): ''
        @ ''ERROR: E_RANGE: mode out of range (0000-0777)'' @ newline"
proof -
  let ?st = "\<lparr>stdin = ''1000'' @ newline @ ''0022'' @ newline, stdout = []\<rparr>"
  have v: "is_valid_octal4 ''1000''"
    by (simp add: is_valid_octal4_def char_val_def)
  have a: "fst (cin_read ?st) = ''1000''"
    by (simp add: cin_read_def isspace_def newline_def)
  have b: "is_valid_octal4 (fst (cin_read (snd (cin_read ?st))))"
    by (simp add: cin_read_def isspace_def newline_def is_valid_octal4_def char_val_def)
  have h: "hd ''1000'' \<noteq> CHR ''0''"
    by simp
  from validated_value_range [OF v, of ?st] v a b h show ?thesis
    by simp
qed

text \<open>
  C3. For every string \<open>s\<close>, the validator accepts \<open>s\<close> if and only if \<open>s\<close> has exactly
  four characters and each of them is one of the digits \<^verbatim>\<open>0\<close> to \<^verbatim>\<open>7\<close>. In particular
  the three-character string \<^verbatim>\<open>644\<close> is rejected, and so are strings padded with a blank
  or carrying a sign: nothing is trimmed and no sign is interpreted.
\<close>

theorem is_valid_octal4_characterisation:
  "is_valid_octal4 s = (length s = 4 \<and> (\<forall>c \<in> set s. c \<in> set ''01234567''))
   \<and> \<not> is_valid_octal4 ''644''
   \<and> \<not> is_valid_octal4 '' 644'' \<and> \<not> is_valid_octal4 ''644 ''
   \<and> \<not> is_valid_octal4 '' 0644'' \<and> \<not> is_valid_octal4 ''0644 ''
   \<and> \<not> is_valid_octal4 ''+644'' \<and> \<not> is_valid_octal4 ''-644''
   \<and> \<not> is_valid_octal4 ''+0644'' \<and> \<not> is_valid_octal4 ''-0644''"
proof -
  have "is_valid_octal4 s = (length s = 4 \<and> (\<forall>c \<in> set s. c \<in> set ''01234567''))"
    unfolding is_valid_octal4_iff by blast
  moreover have "\<not> is_valid_octal4 ''644''" "\<not> is_valid_octal4 '' 644''"
    "\<not> is_valid_octal4 ''644 ''" "\<not> is_valid_octal4 '' 0644''" "\<not> is_valid_octal4 ''0644 ''"
    "\<not> is_valid_octal4 ''+644''" "\<not> is_valid_octal4 ''-644''"
    "\<not> is_valid_octal4 ''+0644''" "\<not> is_valid_octal4 ''-0644''"
    by (simp_all add: is_valid_octal4_def char_val_def)
  ultimately show ?thesis
    by blast
qed

theorem is_valid_octal4_characterisation_witness:
  "is_valid_octal4 ''0755'' \<and> \<not> is_valid_octal4 ''0758'' \<and> \<not> is_valid_octal4 ''07555''"
  using is_valid_octal4_characterisation [of "''0755''"]
    is_valid_octal4_characterisation [of "''0758''"]
    is_valid_octal4_characterisation [of "''07555''"]
  by simp

text \<open>
  C4. For every validated string \<open>s\<close>, \<^verbatim>\<open>octal_to_int\<close> returns a non-negative integer,
  the base 8 value of its four digits:
  \<open>digit 0 * 8 ^ 3 + digit 1 * 8 ^ 2 + digit 2 * 8 + digit 3\<close>, where the digit at a
  position is the code of the character there minus 48, the code of \<^verbatim>\<open>0\<close>, a number
  between 0 and 7.
\<close>

theorem octal_to_int_base8:
  assumes "is_valid_octal4 s"
  shows "0 \<le> sint (octal_to_int s)
    \<and> sint (octal_to_int s) =
        (of_char (s ! 0) - 48) * 8 ^ 3 + (of_char (s ! 1) - 48) * 8 ^ 2
          + (of_char (s ! 2) - 48) * 8 + (of_char (s ! 3) - 48)
    \<and> (\<forall>i < 4. (0::int) \<le> of_char (s ! i) - 48 \<and> of_char (s ! i) - 48 \<le> (7::int))"
proof -
  from assms have len: "length s = 4" and dig: "set s \<subseteq> set ''01234567''"
    by (simp_all only: is_valid_octal4_iff)
  from len obtain a b c d where s: "s = [a, b, c, d]"
    using length_4_conv by blast
  with dig have m: "a \<in> set ''01234567''" "b \<in> set ''01234567''" "c \<in> set ''01234567''"
    "d \<in> set ''01234567''"
    by simp_all
  have cv: "char_val x - char_val CHR ''0'' = of_char x - 48" if "x \<in> set ''01234567''" for x
    using that by (auto simp: char_val_def)
  have v: "sint (octal_to_int s) =
        (of_char a - 48) * 8 ^ 3 + (of_char b - 48) * 8 ^ 2 + (of_char c - 48) * 8 + (of_char d - 48)"
    unfolding s sint_octal_to_int_4 [OF m] by (simp only: cv [OF m(1)] cv [OF m(2)] cv [OF m(3)] cv [OF m(4)])
  have dr: "(0::int) \<le> of_char x - 48 \<and> of_char x - 48 \<le> (7::int)" if "x \<in> set ''01234567''" for x
    using digit_range [OF that] by (simp only: cv [OF that])
  have all: "\<forall>i < 4. (0::int) \<le> of_char (s ! i) - 48 \<and> of_char (s ! i) - 48 \<le> (7::int)"
  proof (intro allI impI)
    fix i :: nat
    assume "i < 4"
    then have "s ! i \<in> set s"
      using len by simp
    then have "s ! i \<in> set ''01234567''"
      using dig by blast
    then show "(0::int) \<le> of_char (s ! i) - 48 \<and> of_char (s ! i) - 48 \<le> (7::int)"
      by (rule dr)
  qed
  have "0 \<le> sint (octal_to_int s)"
    using octal_to_int_range [OF assms] by simp
  with v all show ?thesis
    by (simp add: s)
qed

theorem octal_to_int_base8_witness:
  "is_valid_octal4 ''0644'' \<and> sint (octal_to_int ''0644'') = 0 * 8 ^ 3 + 6 * 8 ^ 2 + 4 * 8 + 4
   \<and> sint (octal_to_int ''0644'') = 420"
proof -
  have v: "is_valid_octal4 ''0644''"
    by (simp add: is_valid_octal4_def char_val_def)
  from octal_to_int_base8 [OF v] v show ?thesis
    by simp
qed

text \<open>
  C5, as the specification states it, speaks of all validated strings \<open>m\<close> and \<open>u\<close>. For
  the validated pair \<^verbatim>\<open>0777\<close> and \<^verbatim>\<open>1000\<close> the program computes and reports no
  effective value: the umask parses to 512, the range check stops the run with status 1
  and the line \<^verbatim>\<open>ERROR: E_RANGE: umask out of range (0000-0777)\<close>.
\<close>

theorem valid_umask_out_of_range_no_effective:
  "is_valid_octal4 ''0777'' \<and> is_valid_octal4 ''1000''
   \<and> fst (main \<lparr>stdin = ''0777'' @ newline @ ''1000'' @ newline, stdout = []\<rparr>) = 1
   \<and> stdout (snd (main \<lparr>stdin = ''0777'' @ newline @ ''1000'' @ newline, stdout = []\<rparr>)) =
       ''Enter file mode (4-digit octal, e.g., 0644): Enter umask (4-digit octal, e.g., 0022): ''
        @ ''ERROR: E_RANGE: umask out of range (0000-0777)'' @ newline"
  by (simp add: main_def cin_read_def cout_def error_out_def isspace_def newline_def
      is_valid_octal4_def char_val_def octal_to_int_def word_sless_alt)

text \<open>
  C5, amended. Let \<open>m\<close> and \<open>u\<close> be validated strings, read as the mode and the umask
  token. When both values are at most 511, the program exits with status 0 and the value
  it renders on both \<^verbatim>\<open>OK\<close> lines is
  \<open>octal_to_int m AND NOT (octal_to_int u) AND 511\<close>, the value of line 132 of the source.
  When the value of \<open>m\<close> exceeds 511, the program reports no effective value: it exits with
  status 1 after the line \<^verbatim>\<open>ERROR: E_RANGE: mode out of range (0000-0777)\<close>. When the
  value of \<open>m\<close> is at most 511 and that of \<open>u\<close> exceeds 511, it exits with status 1 after
  the line \<^verbatim>\<open>ERROR: E_RANGE: umask out of range (0000-0777)\<close>. The effective value of
  line 132 is unchanged by masking it with 511 again, and lies in [0, 511].
\<close>

theorem effective_reported:
  assumes "fst (cin_read st0) = m" and "fst (cin_read (snd (cin_read st0))) = u"
    and "is_valid_octal4 m" and "is_valid_octal4 u"
  shows "(sint (octal_to_int m) \<le> 511 \<and> sint (octal_to_int u) \<le> 511 \<longrightarrow>
        fst (main st0) = 0
        \<and> stdout (snd (main st0)) =
            stdout st0 @ ''Enter file mode (4-digit octal, e.g., 0644): ''
              @ ''Enter umask (4-digit octal, e.g., 0022): ''
              @ newline @ ''OK: EFFECTIVE ''
              @ int_to_octal4 (octal_to_int m AND NOT (octal_to_int u) AND 511)
              @ newline @ ''OK: SYMBOLIC ''
              @ mode_to_symbolic (octal_to_int m AND NOT (octal_to_int u) AND 511)
              @ newline)
    \<and> (511 < sint (octal_to_int m) \<longrightarrow>
        fst (main st0) = 1
        \<and> stdout (snd (main st0)) =
            stdout st0 @ ''Enter file mode (4-digit octal, e.g., 0644): ''
              @ ''Enter umask (4-digit octal, e.g., 0022): ''
              @ ''ERROR: E_RANGE: mode out of range (0000-0777)'' @ newline)
    \<and> (sint (octal_to_int m) \<le> 511 \<and> 511 < sint (octal_to_int u) \<longrightarrow>
        fst (main st0) = 1
        \<and> stdout (snd (main st0)) =
            stdout st0 @ ''Enter file mode (4-digit octal, e.g., 0644): ''
              @ ''Enter umask (4-digit octal, e.g., 0022): ''
              @ ''ERROR: E_RANGE: umask out of range (0000-0777)'' @ newline)
    \<and> effective (octal_to_int m) (octal_to_int u) = octal_to_int m AND NOT (octal_to_int u) AND 511
    \<and> effective (octal_to_int m) (octal_to_int u) AND 511 = effective (octal_to_int m) (octal_to_int u)
    \<and> 0 \<le> sint (effective (octal_to_int m) (octal_to_int u))
    \<and> sint (effective (octal_to_int m) (octal_to_int u)) \<le> 511"
proof -
  have e: "effective (octal_to_int m) (octal_to_int u) = octal_to_int m AND NOT (octal_to_int u) AND 511"
    by (simp add: effective_def and.assoc)
  have i: "effective (octal_to_int m) (octal_to_int u) AND 511 = effective (octal_to_int m) (octal_to_int u)"
    unfolding effective_def by (rule and_511_idem)
  have b: "0 \<le> sint (effective (octal_to_int m) (octal_to_int u))
      \<and> sint (effective (octal_to_int m) (octal_to_int u)) \<le> 511"
    unfolding effective_def by (rule sint_and_511)
  have v: "is_valid_octal4 (fst (cin_read st0))"
    "is_valid_octal4 (fst (cin_read (snd (cin_read st0))))"
    using assms by simp_all
  have ok: "fst (main st0) = 0
        \<and> stdout (snd (main st0)) =
            stdout st0 @ ''Enter file mode (4-digit octal, e.g., 0644): ''
              @ ''Enter umask (4-digit octal, e.g., 0022): ''
              @ newline @ ''OK: EFFECTIVE ''
              @ int_to_octal4 (octal_to_int m AND NOT (octal_to_int u) AND 511)
              @ newline @ ''OK: SYMBOLIC ''
              @ mode_to_symbolic (octal_to_int m AND NOT (octal_to_int u) AND 511)
              @ newline"
    if r: "sint (octal_to_int m) \<le> 511" "sint (octal_to_int u) \<le> 511"
  proof -
    have g: "\<not> 511 <s octal_to_int (fst (cin_read st0))"
      "\<not> 511 <s octal_to_int (fst (cin_read (snd (cin_read st0))))"
      using assms(1,2) r by (simp_all add: word_sless_alt)
    have "fst (main st0) = 0"
      using v g by (rule main_success_observed(1))
    moreover have "stdout (snd (main st0)) =
            stdout st0 @ ''Enter file mode (4-digit octal, e.g., 0644): ''
              @ ''Enter umask (4-digit octal, e.g., 0022): ''
              @ newline @ ''OK: EFFECTIVE ''
              @ int_to_octal4 (octal_to_int m AND NOT (octal_to_int u) AND 511)
              @ newline @ ''OK: SYMBOLIC ''
              @ mode_to_symbolic (octal_to_int m AND NOT (octal_to_int u) AND 511)
              @ newline"
      using main_success_observed(2) [OF v g] by (simp only: assms(1,2) e)
    ultimately show ?thesis
      by blast
  qed
  have em: "fst (main st0) = 1
        \<and> stdout (snd (main st0)) =
            stdout st0 @ ''Enter file mode (4-digit octal, e.g., 0644): ''
              @ ''Enter umask (4-digit octal, e.g., 0022): ''
              @ ''ERROR: E_RANGE: mode out of range (0000-0777)'' @ newline"
    if r: "511 < sint (octal_to_int m)"
  proof -
    have g: "511 <s octal_to_int (fst (cin_read st0))"
      using assms(1) r by (simp add: word_sless_alt)
    show ?thesis
      using main_range_mode_observed [OF v g] by blast
  qed
  have eu: "fst (main st0) = 1
        \<and> stdout (snd (main st0)) =
            stdout st0 @ ''Enter file mode (4-digit octal, e.g., 0644): ''
              @ ''Enter umask (4-digit octal, e.g., 0022): ''
              @ ''ERROR: E_RANGE: umask out of range (0000-0777)'' @ newline"
    if r: "sint (octal_to_int m) \<le> 511" "511 < sint (octal_to_int u)"
  proof -
    have g: "\<not> 511 <s octal_to_int (fst (cin_read st0))"
      "511 <s octal_to_int (fst (cin_read (snd (cin_read st0))))"
      using assms(1,2) r by (simp_all add: word_sless_alt)
    show ?thesis
      using main_range_umask_observed [OF v g] by blast
  qed
  from ok em eu e i b show ?thesis
    by blast
qed

theorem effective_reported_witness:
  "(fst (cin_read \<lparr>stdin = ''0755'' @ newline @ ''0027'' @ newline, stdout = []\<rparr>) = ''0755''
    \<and> fst (cin_read (snd (cin_read \<lparr>stdin = ''0755'' @ newline @ ''0027'' @ newline, stdout = []\<rparr>))) = ''0027''
    \<and> is_valid_octal4 ''0755'' \<and> is_valid_octal4 ''0027''
    \<and> sint (octal_to_int ''0755'') \<le> 511 \<and> sint (octal_to_int ''0027'') \<le> 511
    \<and> fst (main \<lparr>stdin = ''0755'' @ newline @ ''0027'' @ newline, stdout = []\<rparr>) = 0
    \<and> stdout (snd (main \<lparr>stdin = ''0755'' @ newline @ ''0027'' @ newline, stdout = []\<rparr>)) =
        ''Enter file mode (4-digit octal, e.g., 0644): Enter umask (4-digit octal, e.g., 0022): ''
         @ newline @ ''OK: EFFECTIVE 0750'' @ newline @ ''OK: SYMBOLIC rwxr-x---'' @ newline
    \<and> effective (octal_to_int ''0755'') (octal_to_int ''0027'') = 488)
   \<and> (fst (cin_read \<lparr>stdin = ''1000'' @ newline @ ''0022'' @ newline, stdout = []\<rparr>) = ''1000''
    \<and> fst (cin_read (snd (cin_read \<lparr>stdin = ''1000'' @ newline @ ''0022'' @ newline, stdout = []\<rparr>))) = ''0022''
    \<and> is_valid_octal4 ''1000'' \<and> is_valid_octal4 ''0022''
    \<and> 511 < sint (octal_to_int ''1000'')
    \<and> fst (main \<lparr>stdin = ''1000'' @ newline @ ''0022'' @ newline, stdout = []\<rparr>) = 1
    \<and> stdout (snd (main \<lparr>stdin = ''1000'' @ newline @ ''0022'' @ newline, stdout = []\<rparr>)) =
        ''Enter file mode (4-digit octal, e.g., 0644): Enter umask (4-digit octal, e.g., 0022): ''
         @ ''ERROR: E_RANGE: mode out of range (0000-0777)'' @ newline)
   \<and> (fst (cin_read \<lparr>stdin = ''0777'' @ newline @ ''1001'' @ newline, stdout = []\<rparr>) = ''0777''
    \<and> fst (cin_read (snd (cin_read \<lparr>stdin = ''0777'' @ newline @ ''1001'' @ newline, stdout = []\<rparr>))) = ''1001''
    \<and> is_valid_octal4 ''0777'' \<and> is_valid_octal4 ''1001''
    \<and> sint (octal_to_int ''0777'') \<le> 511 \<and> 511 < sint (octal_to_int ''1001'')
    \<and> fst (main \<lparr>stdin = ''0777'' @ newline @ ''1001'' @ newline, stdout = []\<rparr>) = 1
    \<and> stdout (snd (main \<lparr>stdin = ''0777'' @ newline @ ''1001'' @ newline, stdout = []\<rparr>)) =
        ''Enter file mode (4-digit octal, e.g., 0644): Enter umask (4-digit octal, e.g., 0022): ''
         @ ''ERROR: E_RANGE: umask out of range (0000-0777)'' @ newline)"
proof -
  let ?s1 = "\<lparr>stdin = ''0755'' @ newline @ ''0027'' @ newline, stdout = []\<rparr>"
  let ?s2 = "\<lparr>stdin = ''1000'' @ newline @ ''0022'' @ newline, stdout = []\<rparr>"
  let ?s3 = "\<lparr>stdin = ''0777'' @ newline @ ''1001'' @ newline, stdout = []\<rparr>"
  have a1: "fst (cin_read ?s1) = ''0755''" and b1: "fst (cin_read (snd (cin_read ?s1))) = ''0027''"
    and a2: "fst (cin_read ?s2) = ''1000''" and b2: "fst (cin_read (snd (cin_read ?s2))) = ''0022''"
    and a3: "fst (cin_read ?s3) = ''0777''" and b3: "fst (cin_read (snd (cin_read ?s3))) = ''1001''"
    by (simp_all add: cin_read_def isspace_def newline_def)
  have v: "is_valid_octal4 ''0755''" "is_valid_octal4 ''0027''" "is_valid_octal4 ''1000''"
    "is_valid_octal4 ''0022''" "is_valid_octal4 ''0777''" "is_valid_octal4 ''1001''"
    by (simp_all add: is_valid_octal4_def char_val_def)
  have m: "octal_to_int ''0755'' = 493" "octal_to_int ''0027'' = 23" "octal_to_int ''1000'' = 512"
    "octal_to_int ''0022'' = 18" "octal_to_int ''0777'' = 511" "octal_to_int ''1001'' = 513"
    by (simp_all add: octal_to_int_def char_val_def)
  have e: "(493::cint) AND NOT 23 AND 511 = 488"
    by simp
  have o: "int_to_octal4 488 = ''0750''"
    by (simp add: int_to_octal4_def setw_setfill_def oct_digits.simps oct_digit_def)
  have y: "mode_to_symbolic 488 = ''rwxr-x---''"
    by (simp add: mode_to_symbolic_def triad_to_rwx_def)
  have p1: "fst (main ?s1) = 0
    \<and> stdout (snd (main ?s1)) =
        ''Enter file mode (4-digit octal, e.g., 0644): Enter umask (4-digit octal, e.g., 0022): ''
         @ newline @ ''OK: EFFECTIVE 0750'' @ newline @ ''OK: SYMBOLIC rwxr-x---'' @ newline
    \<and> effective (octal_to_int ''0755'') (octal_to_int ''0027'') = 488"
    using effective_reported [OF a1 b1 v(1,2)] by (simp add: m e o y)
  have p2: "fst (main ?s2) = 1
    \<and> stdout (snd (main ?s2)) =
        ''Enter file mode (4-digit octal, e.g., 0644): Enter umask (4-digit octal, e.g., 0022): ''
         @ ''ERROR: E_RANGE: mode out of range (0000-0777)'' @ newline"
    using effective_reported [OF a2 b2 v(3,4)] by (simp add: m)
  have p3: "fst (main ?s3) = 1
    \<and> stdout (snd (main ?s3)) =
        ''Enter file mode (4-digit octal, e.g., 0644): Enter umask (4-digit octal, e.g., 0022): ''
         @ ''ERROR: E_RANGE: umask out of range (0000-0777)'' @ newline"
    using effective_reported [OF a3 b3 v(5,6)] by (simp add: m)
  have r: "sint (octal_to_int ''0755'') \<le> 511" "sint (octal_to_int ''0027'') \<le> 511"
    "511 < sint (octal_to_int ''1000'')" "sint (octal_to_int ''0777'') \<le> 511"
    "511 < sint (octal_to_int ''1001'')"
    unfolding m by simp_all
  from p1 p2 p3 a1 b1 a2 b2 a3 b3 v r show ?thesis
    by blast
qed

text \<open>
  C6. For every integer \<open>v\<close> in [0, 511], parsing the four-digit octal rendering of
  \<open>v\<close> recovers \<open>v\<close>: \<open>octal_to_int (int_to_octal4 v) = v\<close>.
\<close>

theorem octal_round_trip:
  assumes "0 \<le> sint v" and "sint v \<le> 511"
  shows "octal_to_int (int_to_octal4 v) = v"
proof -
  define n where "n = unat v"
  have r: "int_to_octal4 v = [CHR ''0'', oct_digit (n div 64), oct_digit (n div 8 mod 8), oct_digit (n mod 8)]"
    unfolding n_def using assms by (rule int_to_octal4_small)
  have "uint v < 512"
    using assms uint_of_sint [of v] by simp
  then have "n < 512"
    unfolding n_def using uint_nat [of v] by linarith
  then have n: "n div 64 < 8"
    by simp
  have z: "char_val CHR ''0'' - char_val CHR ''0'' = 0"
    by simp
  have "octal_to_int (int_to_octal4 v) =
      word_of_int (0 * 8 ^ 3 + (char_val (oct_digit (n div 64)) - char_val CHR ''0'') * 8 ^ 2
        + (char_val (oct_digit (n div 8 mod 8)) - char_val CHR ''0'') * 8
        + (char_val (oct_digit (n mod 8)) - char_val CHR ''0''))"
    by (simp only: r octal_to_int_4 z)
  also have "\<dots> = word_of_int (int (n div 64) * 8 ^ 2 + int (n div 8 mod 8) * 8 + int (n mod 8))"
    using n by (simp add: oct_digit_val)
  also have "\<dots> = word_of_int (int n)"
    by (simp only: base8_split)
  also have "\<dots> = v"
    by (simp add: n_def)
  finally show ?thesis .
qed

theorem octal_round_trip_witness:
  "0 \<le> sint (420 :: cint) \<and> sint (420 :: cint) \<le> 511 \<and> int_to_octal4 420 = ''0644''
    \<and> octal_to_int ''0644'' = 420"
  using octal_round_trip [of 420]
  by (simp add: int_to_octal4_def setw_setfill_def oct_digits.simps oct_digit_def)

text \<open>
  C7. The symbolic rendering of \<open>v\<close> is the concatenation, in the order user, group, other,
  of the renderings of the three triads \<open>(v >> 6) & 7\<close>, \<open>(v >> 3) & 7\<close> and
  \<open>(v >> 0) & 7\<close>; a triad is rendered as three characters, \<^verbatim>\<open>r\<close> when its bit of value 4
  is set, \<^verbatim>\<open>w\<close> for the bit of value 2, \<^verbatim>\<open>x\<close> for the bit of value 1, and \<^verbatim>\<open>-\<close>
  otherwise. Hence the result has nine characters and the character at position \<open>i\<close>
  depends on bit \<open>8 - i\<close> of \<open>v\<close> alone: no triad influences another. 511 renders as
  \<^verbatim>\<open>rwxrwxrwx\<close> and 0 as \<^verbatim>\<open>---------\<close>. This holds for every \<^verbatim>\<open>int\<close> \<open>v\<close>, in
  particular for those in [0, 511].
\<close>

theorem mode_to_symbolic_triads:
  "mode_to_symbolic v =
      triad_to_rwx (signed_drop_bit 6 v AND 7) @ triad_to_rwx (signed_drop_bit 3 v AND 7)
        @ triad_to_rwx (signed_drop_bit 0 v AND 7)
   \<and> triad_to_rwx b =
      [if b AND 4 \<noteq> 0 then CHR ''r'' else CHR ''-'', if b AND 2 \<noteq> 0 then CHR ''w'' else CHR ''-'',
       if b AND 1 \<noteq> 0 then CHR ''x'' else CHR ''-'']
   \<and> mode_to_symbolic v =
     [if bit v 8 then CHR ''r'' else CHR ''-'', if bit v 7 then CHR ''w'' else CHR ''-'',
      if bit v 6 then CHR ''x'' else CHR ''-'',
      if bit v 5 then CHR ''r'' else CHR ''-'', if bit v 4 then CHR ''w'' else CHR ''-'',
      if bit v 3 then CHR ''x'' else CHR ''-'',
      if bit v 2 then CHR ''r'' else CHR ''-'', if bit v 1 then CHR ''w'' else CHR ''-'',
      if bit v 0 then CHR ''x'' else CHR ''-'']
   \<and> length (mode_to_symbolic v) = 9
   \<and> mode_to_symbolic 511 = ''rwxrwxrwx''
   \<and> mode_to_symbolic 0 = ''---------''"
proof -
  have "mode_to_symbolic v =
      triad_to_rwx (signed_drop_bit 6 v AND 7) @ triad_to_rwx (signed_drop_bit 3 v AND 7)
        @ triad_to_rwx (signed_drop_bit 0 v AND 7)"
    by (simp add: mode_to_symbolic_def Let_def)
  moreover have "length (mode_to_symbolic v) = 9"
    by (simp only: mode_to_symbolic_bits) simp
  moreover have "mode_to_symbolic 511 = ''rwxrwxrwx''" "mode_to_symbolic 0 = ''---------''"
    by (simp_all add: mode_to_symbolic_def triad_to_rwx_def)
  ultimately show ?thesis
    using mode_to_symbolic_bits [of v] triad_to_rwx_def [of b] by blast
qed

theorem mode_to_symbolic_triads_witness:
  "mode_to_symbolic 420 = ''rw-r--r--'' \<and> triad_to_rwx 5 = ''r-x''"
  using mode_to_symbolic_triads [of 420 5]
  by (simp add: triad_to_rwx_def)

text \<open>
  C8. When the mode token fails validation, the program writes, after the prompt for the
  mode, the one line \<^verbatim>\<open>ERROR: E_OCTAL: mode must be 4-digit octal (0000-0777)\<close> and nothing
  else, and exits with status 1. The umask is neither prompted for nor read: the output
  holds no second prompt and the input left over is what the first extraction left.
\<close>

theorem invalid_mode_fails_fast:
  assumes "\<not> is_valid_octal4 (fst (cin_read st0))"
  shows "fst (main st0) = 1
    \<and> stdout (snd (main st0)) =
        stdout st0 @ ''Enter file mode (4-digit octal, e.g., 0644): ''
          @ ''ERROR: E_OCTAL: mode must be 4-digit octal (0000-0777)'' @ newline
    \<and> stdin (snd (main st0)) = stdin (snd (cin_read st0))"
  using main_invalid_mode_observed [OF assms] by blast

theorem invalid_mode_fails_fast_witness:
  "fst (cin_read \<lparr>stdin = ''999'' @ newline @ ''0022'' @ newline, stdout = []\<rparr>) = ''999''
   \<and> \<not> is_valid_octal4 ''999''
   \<and> main \<lparr>stdin = ''999'' @ newline @ ''0022'' @ newline, stdout = []\<rparr> =
      (1, \<lparr>stdin = newline @ ''0022'' @ newline,
           stdout = ''Enter file mode (4-digit octal, e.g., 0644): ''
             @ ''ERROR: E_OCTAL: mode must be 4-digit octal (0000-0777)'' @ newline\<rparr>)"
proof -
  let ?st = "\<lparr>stdin = ''999'' @ newline @ ''0022'' @ newline, stdout = []\<rparr>"
  have a: "fst (cin_read ?st) = ''999''"
    by (simp add: cin_read_def isspace_def newline_def)
  have r: "stdin (snd (cin_read ?st)) = newline @ ''0022'' @ newline"
    by (simp add: cin_read_def isspace_def newline_def)
  have v: "\<not> is_valid_octal4 ''999''"
    by (simp add: is_valid_octal4_def)
  have "\<not> is_valid_octal4 (fst (cin_read ?st))"
    unfolding a by (rule v)
  from invalid_mode_fails_fast [OF this] a r v show ?thesis
    by (cases "main ?st") (simp add: io.equality)
qed

text \<open>
  C9. For every integer \<open>v\<close> in [0, 511], \<^verbatim>\<open>int_to_octal4 v\<close> has exactly four
  characters, the first of which is \<^verbatim>\<open>0\<close>; the other three are the digits of \<open>v\<close> in
  base 8, most significant first. 420 is rendered as \<^verbatim>\<open>0644\<close>.
\<close>

theorem int_to_octal4_four_digits:
  assumes "0 \<le> sint v" and "sint v \<le> 511"
  shows "length (int_to_octal4 v) = 4
    \<and> hd (int_to_octal4 v) = CHR ''0''
    \<and> int_to_octal4 v =
        [CHR ''0'', ''01234567'' ! (nat (sint v) div 64), ''01234567'' ! (nat (sint v) div 8 mod 8),
         ''01234567'' ! (nat (sint v) mod 8)]
    \<and> int (nat (sint v) div 64) * 8 ^ 2 + int (nat (sint v) div 8 mod 8) * 8 + int (nat (sint v) mod 8) = sint v"
proof -
  have "uint v = sint v"
    using assms(1) by (rule uint_of_sint)
  then have n: "unat v = nat (sint v)"
    by (simp only: unat_eq_nat_uint)
  have r: "int_to_octal4 v =
        [CHR ''0'', ''01234567'' ! (nat (sint v) div 64), ''01234567'' ! (nat (sint v) div 8 mod 8),
         ''01234567'' ! (nat (sint v) mod 8)]"
    using int_to_octal4_small [OF assms] by (simp only: n oct_digit_def)
  have "int (nat (sint v) div 64) * 8 ^ 2 + int (nat (sint v) div 8 mod 8) * 8 + int (nat (sint v) mod 8)
      = int (nat (sint v))"
    by (rule base8_split)
  also have "\<dots> = sint v"
    using assms(1) by simp
  finally show ?thesis
    using r by simp
qed

theorem int_to_octal4_four_digits_witness:
  "0 \<le> sint (420::cint) \<and> sint (420::cint) \<le> 511 \<and> int_to_octal4 420 = ''0644''"
proof -
  have a: "0 \<le> sint (420::cint)" and b: "sint (420::cint) \<le> 511"
    by simp_all
  from int_to_octal4_four_digits [OF a b] a b show ?thesis
    by simp
qed

text \<open>
  C10. For every \<^verbatim>\<open>int\<close> \<open>v\<close>, also above 511 or negative, the symbolic rendering of \<open>v\<close>
  is that of \<open>v AND 511\<close> and has exactly nine characters, and the octal rendering of \<open>v\<close>
  is that of \<open>v AND 511\<close>: only the low nine bits matter to either renderer.
\<close>

theorem renderers_ignore_high_bits:
  "mode_to_symbolic v = mode_to_symbolic (v AND 511)
   \<and> length (mode_to_symbolic v) = 9
   \<and> int_to_octal4 v = int_to_octal4 (v AND 511)"
proof -
  have k: "bit (v AND 511) k = bit v k" if "k < 9" for k
    using that by (simp add: mask_9_eq_511 bit_simps)
  have "mode_to_symbolic (v AND 511) = mode_to_symbolic v"
    by (simp add: mode_to_symbolic_bits k)
  moreover have "length (mode_to_symbolic v) = 9"
    by (simp only: mode_to_symbolic_bits) simp
  moreover have "int_to_octal4 (v AND 511) = int_to_octal4 v"
    by (simp only: int_to_octal4_def and_511_idem)
  ultimately show ?thesis
    by simp
qed

theorem renderers_ignore_high_bits_witness:
  "mode_to_symbolic 1004 = mode_to_symbolic 492 \<and> int_to_octal4 1004 = int_to_octal4 492
    \<and> mode_to_symbolic (- 1) = mode_to_symbolic 511"
  using renderers_ignore_high_bits [of 1004] renderers_ignore_high_bits [of "- 1"]
  by simp

end
